theory Spec2Isabelle
  imports Main
begin

section \<open>The data of \<^verbatim>\<open>postgres/string_field.go\<close>\<close>

subsection \<open>Pointers and the store\<close>

text \<open>
  \<^verbatim>\<open>StringField\<close> holds three pointers (\<^verbatim>\<open>value *string\<close>, \<^verbatim>\<open>descending *bool\<close>,
  \<^verbatim>\<open>nullsfirst *bool\<close>). A struct copy shares the cells they point to, so the cells live
  in an explicit store: for each pointee type the contents of every address, and the
  next address that allocation hands out. A pointer is \<open>None\<close> for \<^verbatim>\<open>nil\<close> and \<open>Some a\<close>
  otherwise. Go has no dangling pointers, so reading through a non-nil pointer always
  yields a value: the contents are total functions. Taking the address of a fresh local
  (\<^verbatim>\<open>&s\<close>, \<^verbatim>\<open>&desc\<close>, \<^verbatim>\<open>&nullsfirst\<close>) allocates a cell.
\<close>

type_synonym addr = nat

record heap =
  string_cells :: "addr \<Rightarrow> string"
  string_next :: addr
  bool_cells :: "addr \<Rightarrow> bool"
  bool_next :: addr

definition empty_heap :: heap where
  "empty_heap =
     \<lparr>string_cells = (\<lambda>_. []), string_next = 0, bool_cells = (\<lambda>_. False), bool_next = 0\<rparr>"

definition new_string :: "string \<Rightarrow> heap \<Rightarrow> addr \<times> heap" where
  "new_string s h =
     (string_next h,
      h\<lparr>string_cells := (string_cells h)(string_next h := s),
        string_next := Suc (string_next h)\<rparr>)"

definition new_bool :: "bool \<Rightarrow> heap \<Rightarrow> addr \<times> heap" where
  "new_bool b h =
     (bool_next h,
      h\<lparr>bool_cells := (bool_cells h)(bool_next h := b),
        bool_next := Suc (bool_next h)\<rparr>)"

text \<open>
  What stops a call: Go's run-time panic for a method call on a nil interface value.
\<close>

datatype panic = NilDereference

text \<open>Sequencing of steps that may panic: the first panic ends the call.\<close>

definition and_then :: "panic + 'a \<Rightarrow> ('a \<Rightarrow> panic + 'b) \<Rightarrow> panic + 'b" where
  "and_then r k = (case r of Inl e \<Rightarrow> Inl e | Inr x \<Rightarrow> k x)"

subsection \<open>Tables, slices and dynamic values\<close>

text \<open>
  Modelled from the spec: the interface \<^verbatim>\<open>Table\<close> is declared outside this file. The
  spec requires of it \<^verbatim>\<open>GetAlias() -> string\<close> and \<^verbatim>\<open>GetName() -> string\<close>; a table is
  modelled by the two strings these methods return. An interface value may be
  \<^verbatim>\<open>nil\<close>, so a field of type \<^verbatim>\<open>Table\<close> has type \<open>Table option\<close>.
\<close>

datatype Table = Table (GetAlias: string) (GetName: string)

text \<open>A Go slice is \<^verbatim>\<open>nil\<close> or has elements (possibly none).\<close>

datatype 'a slice = NilSlice | Slice "'a list"

fun elems :: "'a slice \<Rightarrow> 'a list" where
  "elems NilSlice = []"
| "elems (Slice xs) = xs"

record StringField =
  f_value :: "addr option"
  f_alias :: string
  f_table :: "Table option"
  f_name :: string
  f_descending :: "addr option"
  f_nullsfirst :: "addr option"

text \<open>
  A value of type \<^verbatim>\<open>interface{}\<close>, by its dynamic type. \<^verbatim>\<open>RowValue\<close> and \<^verbatim>\<open>Query\<close> are
  declared outside this file and stay type parameters (\<open>'r\<close>, \<open>'q\<close>), as does every
  other dynamic type (\<open>'o\<close>).
\<close>

datatype ('r, 'q, 'o) iface =
    INil
  | IString string
  | IStringField StringField
  | IRowValue 'r
  | IQuery 'q
  | IOther 'o

section \<open>Rendering\<close>

text \<open>\<^verbatim>\<open>strings.ContainsAny(s, chars)\<close>, on bytes; for the ASCII set used here this is
  what Go computes on code points.\<close>

definition ContainsAny :: "string \<Rightarrow> string \<Rightarrow> bool" where
  "ContainsAny s chars = list_ex (\<lambda>c. c \<in> set chars) s"

text \<open>The loop over \<^verbatim>\<open>excludedTableQualifiers\<close>: the first match empties the qualifier
  and leaves the loop.\<close>

fun exclude_loop :: "string \<Rightarrow> string list \<Rightarrow> string" where
  "exclude_loop tableQualifier [] = tableQualifier"
| "exclude_loop tableQualifier (x # xs) =
     (if tableQualifier = x then [] else exclude_loop tableQualifier xs)"

text \<open>
  \<^verbatim>\<open>AppendSQLExclude\<close>: the buffer and the argument list go in and come out. The two
  pointer parameters \<^verbatim>\<open>buf\<close> and \<^verbatim>\<open>args\<close> are taken to be non-nil.
\<close>

definition AppendSQLExclude ::
  "heap \<Rightarrow> StringField \<Rightarrow> string \<Rightarrow> ('r, 'q, 'o) iface list \<Rightarrow> string slice
     \<Rightarrow> panic + (string \<times> ('r, 'q, 'o) iface list)" where
  \<open>AppendSQLExclude h f buf args excludedTableQualifiers =
     and_then
       (case f_value f of
          Some p \<Rightarrow> Inr (buf @ ''?'', args @ [IString (string_cells h p)])
        | None \<Rightarrow>
            (case f_table f of
               None \<Rightarrow> Inl NilDereference
             | Some t \<Rightarrow>
                 (let tableQualifier = GetAlias t;
                      tableQualifier = (if tableQualifier = [] then GetName t else tableQualifier);
                      tableQualifier = exclude_loop tableQualifier (elems excludedTableQualifiers);
                      buf = (if tableQualifier \<noteq> []
                             then (if ContainsAny tableQualifier [CHR '' '', CHR 0x09]
                                   then buf @ ''"'' @ tableQualifier @ ''".''
                                   else buf @ tableQualifier @ ''.'')
                             else buf);
                      buf = (if ContainsAny (f_name f) [CHR '' '', CHR 0x09]
                             then buf @ ''"'' @ f_name f @ ''"''
                             else buf @ f_name f)
                  in Inr (buf, args))))
       (\<lambda>(buf, args).
          (let buf = (case f_descending f of
                        None \<Rightarrow> buf
                      | Some p \<Rightarrow> if bool_cells h p then buf @ '' DESC'' else buf @ '' ASC'');
               buf = (case f_nullsfirst f of
                        None \<Rightarrow> buf
                      | Some p \<Rightarrow>
                          if bool_cells h p then buf @ '' NULLS FIRST''
                          else buf @ '' NULLS LAST'')
           in Inr (buf, args)))\<close>

section \<open>Constructors\<close>

definition NewStringField :: "string \<Rightarrow> Table option \<Rightarrow> StringField" where
  "NewStringField name table =
     \<lparr>f_value = None, f_alias = [], f_table = table, f_name = name,
      f_descending = None, f_nullsfirst = None\<rparr>"

definition NewEnumField :: "string \<Rightarrow> Table option \<Rightarrow> StringField" where
  "NewEnumField name table = NewStringField name table"

definition String :: "string \<Rightarrow> heap \<Rightarrow> StringField \<times> heap" where
  "String s h =
     (let (p, h') = new_string s h
      in (\<lparr>f_value = Some p, f_alias = [], f_table = None, f_name = [],
           f_descending = None, f_nullsfirst = None\<rparr>, h'))"

section \<open>Assignment builders\<close>

text \<open>\<^verbatim>\<open>FieldAssignment\<close> is declared outside this file; the struct literals of \<^verbatim>\<open>Set\<close>
  and \<^verbatim>\<open>SetString\<close> give its two fields.\<close>

record ('r, 'q, 'o) FieldAssignment =
  Field :: StringField
  Value :: "('r, 'q, 'o) iface"

definition Set :: "StringField \<Rightarrow> ('r, 'q, 'o) iface \<Rightarrow> ('r, 'q, 'o) FieldAssignment" where
  "Set f v = \<lparr>Field = f, Value = v\<rparr>"

definition SetString :: "StringField \<Rightarrow> string \<Rightarrow> ('r, 'q, 'o) FieldAssignment" where
  "SetString f s = \<lparr>Field = f, Value = IString s\<rparr>"

section \<open>Decorators\<close>

text \<open>
  Each method has a value receiver: \<open>f\<close> is the callee's copy of the struct, the
  assignment changes that copy, and the copy is returned. \<^verbatim>\<open>Asc\<close>, \<^verbatim>\<open>Desc\<close>,
  \<^verbatim>\<open>NullsFirst\<close> and \<^verbatim>\<open>NullsLast\<close> take the address of a fresh local, which allocates
  a cell; \<^verbatim>\<open>As\<close> does not touch the store.
\<close>

definition As :: "StringField \<Rightarrow> string \<Rightarrow> StringField" where
  "As f alias = f\<lparr>f_alias := alias\<rparr>"

definition Asc :: "StringField \<Rightarrow> heap \<Rightarrow> StringField \<times> heap" where
  "Asc f h = (let (desc, h') = new_bool False h in (f\<lparr>f_descending := Some desc\<rparr>, h'))"

definition Desc :: "StringField \<Rightarrow> heap \<Rightarrow> StringField \<times> heap" where
  "Desc f h = (let (desc, h') = new_bool True h in (f\<lparr>f_descending := Some desc\<rparr>, h'))"

definition NullsFirst :: "StringField \<Rightarrow> heap \<Rightarrow> StringField \<times> heap" where
  "NullsFirst f h =
     (let (nullsfirst, h') = new_bool True h in (f\<lparr>f_nullsfirst := Some nullsfirst\<rparr>, h'))"

definition NullsLast :: "StringField \<Rightarrow> heap \<Rightarrow> StringField \<times> heap" where
  "NullsLast f h =
     (let (nullsfirst, h') = new_bool False h in (f\<lparr>f_nullsfirst := Some nullsfirst\<rparr>, h'))"

definition StringField_GetAlias :: "StringField \<Rightarrow> string" where
  "StringField_GetAlias f = f_alias f"

definition StringField_GetName :: "StringField \<Rightarrow> string" where
  "StringField_GetName f = f_name f"

section \<open>Predicates\<close>

text \<open>\<^verbatim>\<open>CustomPredicate\<close> is declared outside this file; the struct literals of the
  builders give its two fields. \<^verbatim>\<open>Predicate\<close> is the interface it is returned as.\<close>

record ('r, 'q, 'o) CustomPredicate =
  Format :: string
  Values :: "('r, 'q, 'o) iface list"

definition IsNull :: "StringField \<Rightarrow> ('r, 'q, 'o) CustomPredicate" where
  "IsNull f = \<lparr>Format = ''? IS NULL'', Values = [IStringField f]\<rparr>"

definition IsNotNull :: "StringField \<Rightarrow> ('r, 'q, 'o) CustomPredicate" where
  "IsNotNull f = \<lparr>Format = ''? IS NOT NULL'', Values = [IStringField f]\<rparr>"

definition Eq :: "StringField \<Rightarrow> StringField \<Rightarrow> ('r, 'q, 'o) CustomPredicate" where
  "Eq f field = \<lparr>Format = ''? = ?'', Values = [IStringField f, IStringField field]\<rparr>"

definition Ne :: "StringField \<Rightarrow> StringField \<Rightarrow> ('r, 'q, 'o) CustomPredicate" where
  "Ne f field = \<lparr>Format = ''? <> ?'', Values = [IStringField f, IStringField field]\<rparr>"

definition Gt :: "StringField \<Rightarrow> StringField \<Rightarrow> ('r, 'q, 'o) CustomPredicate" where
  "Gt f field = \<lparr>Format = ''? > ?'', Values = [IStringField f, IStringField field]\<rparr>"

definition Ge :: "StringField \<Rightarrow> StringField \<Rightarrow> ('r, 'q, 'o) CustomPredicate" where
  "Ge f field = \<lparr>Format = ''? >= ?'', Values = [IStringField f, IStringField field]\<rparr>"

definition Lt :: "StringField \<Rightarrow> StringField \<Rightarrow> ('r, 'q, 'o) CustomPredicate" where
  "Lt f field = \<lparr>Format = ''? < ?'', Values = [IStringField f, IStringField field]\<rparr>"

definition Le :: "StringField \<Rightarrow> StringField \<Rightarrow> ('r, 'q, 'o) CustomPredicate" where
  "Le f field = \<lparr>Format = ''? <= ?'', Values = [IStringField f, IStringField field]\<rparr>"

definition EqString :: "StringField \<Rightarrow> string \<Rightarrow> ('r, 'q, 'o) CustomPredicate" where
  "EqString f s = \<lparr>Format = ''? = ?'', Values = [IStringField f, IString s]\<rparr>"

definition NeString :: "StringField \<Rightarrow> string \<Rightarrow> ('r, 'q, 'o) CustomPredicate" where
  "NeString f s = \<lparr>Format = ''? <> ?'', Values = [IStringField f, IString s]\<rparr>"

definition GtString :: "StringField \<Rightarrow> string \<Rightarrow> ('r, 'q, 'o) CustomPredicate" where
  "GtString f s = \<lparr>Format = ''? > ?'', Values = [IStringField f, IString s]\<rparr>"

definition GeString :: "StringField \<Rightarrow> string \<Rightarrow> ('r, 'q, 'o) CustomPredicate" where
  "GeString f s = \<lparr>Format = ''? >= ?'', Values = [IStringField f, IString s]\<rparr>"

definition LtString :: "StringField \<Rightarrow> string \<Rightarrow> ('r, 'q, 'o) CustomPredicate" where
  "LtString f s = \<lparr>Format = ''? < ?'', Values = [IStringField f, IString s]\<rparr>"

definition LeString :: "StringField \<Rightarrow> string \<Rightarrow> ('r, 'q, 'o) CustomPredicate" where
  "LeString f s = \<lparr>Format = ''? <= ?'', Values = [IStringField f, IString s]\<rparr>"

definition LikeString :: "StringField \<Rightarrow> string \<Rightarrow> ('r, 'q, 'o) CustomPredicate" where
  "LikeString f s = \<lparr>Format = ''? LIKE ?'', Values = [IStringField f, IString s]\<rparr>"

definition NotLikeString :: "StringField \<Rightarrow> string \<Rightarrow> ('r, 'q, 'o) CustomPredicate" where
  "NotLikeString f s = \<lparr>Format = ''? NOT LIKE ?'', Values = [IStringField f, IString s]\<rparr>"

definition ILikeString :: "StringField \<Rightarrow> string \<Rightarrow> ('r, 'q, 'o) CustomPredicate" where
  "ILikeString f s = \<lparr>Format = ''? ILIKE ?'', Values = [IStringField f, IString s]\<rparr>"

definition NotILikeString :: "StringField \<Rightarrow> string \<Rightarrow> ('r, 'q, 'o) CustomPredicate" where
  "NotILikeString f s = \<lparr>Format = ''? NOT ILIKE ?'', Values = [IStringField f, IString s]\<rparr>"

text \<open>
  \<^verbatim>\<open>In\<close> switches on the dynamic type of \<open>v\<close>, the cases in the source's order. The
  method \<^verbatim>\<open>NestThis\<close> of the interface \<^verbatim>\<open>Query\<close> is declared outside this file and is a
  parameter; nothing is assumed of what it returns.
\<close>

definition In ::
  "('q \<Rightarrow> ('r, 'q, 'o) iface) \<Rightarrow> StringField \<Rightarrow> ('r, 'q, 'o) iface
     \<Rightarrow> ('r, 'q, 'o) CustomPredicate" where
  "In NestThis f v =
     (case v of
        IRowValue r \<Rightarrow> \<lparr>Format = ''? IN ?'', Values = [IStringField f, IRowValue r]\<rparr>
      | IQuery q \<Rightarrow> \<lparr>Format = ''? IN (?)'', Values = [IStringField f, NestThis q]\<rparr>
      | _ \<Rightarrow> \<lparr>Format = ''? IN (?)'', Values = [IStringField f, v]\<rparr>)"

section \<open>The specification's vocabulary\<close>

text \<open>
  The definitions of this section follow the words of the specification, not the code;
  the theorems below compare the code with them.
\<close>

text \<open>The Identifier Quoter: a name that contains a space or a tab is wrapped in double
  quotes, verbatim; any other name is emitted as it is.\<close>

definition contains_space_or_tab :: "string \<Rightarrow> bool" where
  "contains_space_or_tab s = (CHR '' '' \<in> set s \<or> CHR 0x09 \<in> set s)"

definition quote_identifier :: "string \<Rightarrow> string" where
  \<open>quote_identifier s = (if contains_space_or_tab s then ''"'' @ s @ ''"'' else s)\<close>

text \<open>The effective table qualifier: the alias if non-empty, else the name.\<close>

definition effective_qualifier :: "Table \<Rightarrow> string" where
  "effective_qualifier t = (if GetAlias t \<noteq> [] then GetAlias t else GetName t)"

text \<open>The decorations of a field, read through its pointers: unset, or set to a truth
  value.\<close>

definition descending_of :: "heap \<Rightarrow> StringField \<Rightarrow> bool option" where
  "descending_of h f = map_option (bool_cells h) (f_descending f)"

definition nullsfirst_of :: "heap \<Rightarrow> StringField \<Rightarrow> bool option" where
  "nullsfirst_of h f = map_option (bool_cells h) (f_nullsfirst f)"

fun direction_suffix :: "bool option \<Rightarrow> string" where
  "direction_suffix None = []"
| "direction_suffix (Some True) = '' DESC''"
| "direction_suffix (Some False) = '' ASC''"

fun nulls_suffix :: "bool option \<Rightarrow> string" where
  "nulls_suffix None = []"
| "nulls_suffix (Some True) = '' NULLS FIRST''"
| "nulls_suffix (Some False) = '' NULLS LAST''"

definition decorations :: "heap \<Rightarrow> StringField \<Rightarrow> string" where
  "decorations h f = direction_suffix (descending_of h f) @ nulls_suffix (nullsfirst_of h f)"

text \<open>The same field with neither decoration.\<close>

definition undecorated :: "StringField \<Rightarrow> StringField" where
  "undecorated f = f\<lparr>f_descending := None, f_nullsfirst := None\<rparr>"

text \<open>A field of the running program points only to cells that have been allocated.\<close>

definition allocated :: "heap \<Rightarrow> StringField \<Rightarrow> bool" where
  "allocated h f =
     ((case f_value f of None \<Rightarrow> True | Some a \<Rightarrow> a < string_next h) \<and>
      (case f_descending f of None \<Rightarrow> True | Some a \<Rightarrow> a < bool_next h) \<and>
      (case f_nullsfirst f of None \<Rightarrow> True | Some a \<Rightarrow> a < bool_next h))"

text \<open>A chain of decorator calls \<^verbatim>\<open>f.d1().d2()...\<close>, each on the result of the one
  before, the store threaded through.\<close>

datatype decorator = CallAs string | CallAsc | CallDesc | CallNullsFirst | CallNullsLast

fun call_decorator :: "decorator \<Rightarrow> StringField \<Rightarrow> heap \<Rightarrow> StringField \<times> heap" where
  "call_decorator (CallAs alias) f h = (As f alias, h)"
| "call_decorator CallAsc f h = Asc f h"
| "call_decorator CallDesc f h = Desc f h"
| "call_decorator CallNullsFirst f h = NullsFirst f h"
| "call_decorator CallNullsLast f h = NullsLast f h"

fun call_decorators :: "decorator list \<Rightarrow> StringField \<Rightarrow> heap \<Rightarrow> StringField \<times> heap" where
  "call_decorators [] f h = (f, h)"
| "call_decorators (d # ds) f h =
     (let (f', h') = call_decorator d f h in call_decorators ds f' h')"

text \<open>The number of placeholder markers of a template.\<close>

definition placeholders :: "string \<Rightarrow> nat" where
  "placeholders fmt = count_list fmt (CHR ''?'')"

section \<open>Closed forms of the rendering\<close>

lemma exclude_loop_eq:
  "exclude_loop q xs = (if q \<in> set xs then [] else q)"
  by (induction xs) auto

lemma ContainsAny_space_tab:
  "ContainsAny s [CHR '' '', CHR 0x09] = contains_space_or_tab s"
  by (auto simp: ContainsAny_def contains_space_or_tab_def list_ex_iff)

lemma render_literal:
  assumes "f_value f = Some p"
  shows "AppendSQLExclude h f buf args excl
           = Inr (buf @ ''?'' @ decorations h f, args @ [IString (string_cells h p)])"
  using assms
  by (cases "f_descending f"; cases "f_nullsfirst f";
      simp add: AppendSQLExclude_def and_then_def Let_def decorations_def
        descending_of_def nullsfirst_of_def)

lemma render_nil_table:
  assumes "f_value f = None" and "f_table f = None"
  shows "AppendSQLExclude h f buf args excl = Inl NilDereference"
  using assms by (simp add: AppendSQLExclude_def and_then_def)

lemma render_column:
  assumes "f_value f = None" and "f_table f = Some t"
  shows "AppendSQLExclude h f buf args excl
           = Inr (buf
                  @ (if effective_qualifier t \<in> set (elems excl) \<or> effective_qualifier t = []
                     then []
                     else quote_identifier (effective_qualifier t) @ ''.'')
                  @ quote_identifier (f_name f)
                  @ decorations h f, args)"
  using assms
  by (cases "f_descending f"; cases "f_nullsfirst f";
      simp add: AppendSQLExclude_def and_then_def Let_def effective_qualifier_def
        exclude_loop_eq ContainsAny_space_tab quote_identifier_def decorations_def
        descending_of_def nullsfirst_of_def)

section \<open>Literals\<close>

text \<open>
  C1. For every string \<open>v\<close>, rendering the literal field \<^verbatim>\<open>String(v)\<close> with any list
  of excluded qualifiers (nil included) writes exactly \<^verbatim>\<open>?\<close> to the buffer and appends
  exactly \<open>v\<close> to the argument list, whatever the store, the buffer and the argument
  list held before.
\<close>

theorem String_renders_placeholder:
  "AppendSQLExclude (snd (String v h)) (fst (String v h)) buf args excl
     = Inr (buf @ ''?'', args @ [IString v])"
  by (simp add: AppendSQLExclude_def String_def new_string_def and_then_def)

section \<open>Column references\<close>

text \<open>
  C2, as amended. For every column-reference field with a table, let \<open>Q\<close> be the
  table's alias if non-empty, else the table's name. With a list of excluded qualifiers
  that contains \<open>Q\<close> the rendering emits the column name alone; with a list that does
  not contain \<open>Q\<close> it emits \<open>Q\<close>, a dot and the column name when \<open>Q\<close> is non-empty, and
  the column name alone when \<open>Q\<close> is empty; a nil list gives the same result as an empty
  one. Each identifier is written under the whitespace-quoting rule and followed by the
  field's order and nulls suffixes.
\<close>

theorem qualifier_suppression:
  assumes "f_value f = None" and "f_table f = Some t"
  shows "(effective_qualifier t \<in> set (elems excl) \<longrightarrow>
            AppendSQLExclude h f buf args excl
              = Inr (buf @ quote_identifier (f_name f) @ decorations h f, args))
       \<and> (effective_qualifier t \<notin> set (elems excl) \<and> effective_qualifier t \<noteq> [] \<longrightarrow>
            AppendSQLExclude h f buf args excl
              = Inr (buf @ quote_identifier (effective_qualifier t) @ ''.''
                       @ quote_identifier (f_name f) @ decorations h f, args))
       \<and> (effective_qualifier t = [] \<longrightarrow>
            AppendSQLExclude h f buf args excl
              = Inr (buf @ quote_identifier (f_name f) @ decorations h f, args))
       \<and> AppendSQLExclude h f buf args NilSlice = AppendSQLExclude h f buf args (Slice [])"
proof -
  have nil: "AppendSQLExclude h f buf args NilSlice = AppendSQLExclude h f buf args (Slice [])"
    by (simp add: render_column [OF assms])
  show ?thesis
    using nil by (simp add: render_column [OF assms])
qed

text \<open>The column \<open>name\<close> of a table with alias \<open>u\<close>: \<open>name\<close> when \<open>u\<close> is excluded,
  \<open>u.name\<close> with an empty or a nil list.\<close>

theorem qualifier_suppression_witness:
  "AppendSQLExclude empty_heap (NewStringField ''name'' (Some (Table ''u'' ''users'')))
      [] ([] :: (unit, unit, unit) iface list) (Slice [''u''])
     = Inr (''name'', [])
   \<and> AppendSQLExclude empty_heap (NewStringField ''name'' (Some (Table ''u'' ''users'')))
      [] ([] :: (unit, unit, unit) iface list) (Slice [])
     = Inr (''u.name'', [])
   \<and> AppendSQLExclude empty_heap (NewStringField ''name'' (Some (Table ''u'' ''users'')))
      [] ([] :: (unit, unit, unit) iface list) NilSlice
     = Inr (''u.name'', [])"
  using qualifier_suppression [of "NewStringField ''name'' (Some (Table ''u'' ''users''))"
      "Table ''u'' ''users''" "Slice [''u'']" empty_heap "[]" "[] :: (unit, unit, unit) iface list"]
    qualifier_suppression [of "NewStringField ''name'' (Some (Table ''u'' ''users''))"
      "Table ''u'' ''users''" "Slice []" empty_heap "[]" "[] :: (unit, unit, unit) iface list"]
  by (simp add: NewStringField_def effective_qualifier_def quote_identifier_def
      contains_space_or_tab_def decorations_def descending_of_def nullsfirst_of_def)

text \<open>
  C2 as written fails for an empty qualifier: a table with neither alias nor
  name has \<open>Q\<close> empty, the empty list of excluded qualifiers does not contain it, and the
  rendering is the column name, with no dot before it.
\<close>

theorem empty_qualifier_counterexample:
  "effective_qualifier (Table [] []) \<notin> set (elems (Slice []))
   \<and> AppendSQLExclude empty_heap (NewStringField ''c'' (Some (Table [] [])))
        [] ([] :: (unit, unit, unit) iface list) (Slice [])
       = Inr (''c'', [])
   \<and> ''c'' \<noteq> effective_qualifier (Table [] []) @ ''.'' @ ''c''"
  by (simp add: AppendSQLExclude_def NewStringField_def effective_qualifier_def
      and_then_def ContainsAny_def)

text \<open>
  C3. When a column reference is rendered, the qualifier (when it is emitted) and the
  column name are each wrapped in double quotes exactly when they contain a space or a
  tab, and are emitted bare otherwise; in both cases the characters of the identifier
  are copied unchanged.
\<close>

theorem identifier_quoting:
  assumes "f_value f = None" and "f_table f = Some t"
  shows \<open>AppendSQLExclude h f buf args excl
           = Inr (buf
                  @ (if effective_qualifier t \<in> set (elems excl) \<or> effective_qualifier t = []
                     then []
                     else if contains_space_or_tab (effective_qualifier t)
                          then ''"'' @ effective_qualifier t @ ''"'' @ ''.''
                          else effective_qualifier t @ ''.'')
                  @ (if contains_space_or_tab (f_name f)
                     then ''"'' @ f_name f @ ''"''
                     else f_name f)
                  @ decorations h f, args)\<close>
  by (simp add: render_column [OF assms] quote_identifier_def)

theorem identifier_quoting_witness:
  \<open>AppendSQLExclude empty_heap (NewStringField ''first name'' (Some (Table [] ''app users'')))
      [] ([] :: (unit, unit, unit) iface list) NilSlice
     = Inr (''"app users"."first name"'', [])
   \<and> AppendSQLExclude empty_heap
        (NewStringField [CHR ''a'', CHR 0x09, CHR ''b''] (Some (Table [] ''users'')))
        [] ([] :: (unit, unit, unit) iface list) NilSlice
     = Inr (''users."'' @ [CHR ''a'', CHR 0x09, CHR ''b''] @ ''"'', [])\<close>
  using identifier_quoting [of "NewStringField ''first name'' (Some (Table [] ''app users''))"
      "Table [] ''app users''" empty_heap "[]" "[] :: (unit, unit, unit) iface list" NilSlice]
    identifier_quoting [of "NewStringField [CHR ''a'', CHR 0x09, CHR ''b''] (Some (Table [] ''users''))"
      "Table [] ''users''" empty_heap "[]" "[] :: (unit, unit, unit) iface list" NilSlice]
  by (simp add: NewStringField_def effective_qualifier_def
      contains_space_or_tab_def decorations_def descending_of_def nullsfirst_of_def)

section \<open>Order and nulls suffixes\<close>



section \<open>Decorators leave existing fields alone\<close>

lemma render_cong:
  assumes "\<And>a. f_value g = Some a \<Longrightarrow> string_cells h' a = string_cells h a"
    and "\<And>a. f_descending g = Some a \<Longrightarrow> bool_cells h' a = bool_cells h a"
    and "\<And>a. f_nullsfirst g = Some a \<Longrightarrow> bool_cells h' a = bool_cells h a"
  shows "AppendSQLExclude h' g buf args excl = AppendSQLExclude h g buf args excl"
  using assms
  by (cases "f_value g"; cases "f_descending g"; cases "f_nullsfirst g";
      simp add: AppendSQLExclude_def)

lemma call_decorator_frame:
  assumes "call_decorator d f h = (f', h')"
  shows "string_cells h' = string_cells h \<and> string_next h' = string_next h
       \<and> bool_next h \<le> bool_next h'
       \<and> (\<forall>a<bool_next h. bool_cells h' a = bool_cells h a)"
  using assms
  by (cases d)
     (auto simp: As_def Asc_def Desc_def NullsFirst_def NullsLast_def new_bool_def)

lemma call_decorators_frame:
  assumes "call_decorators ds f h = (f', h')"
  shows "string_cells h' = string_cells h \<and> string_next h' = string_next h
       \<and> bool_next h \<le> bool_next h'
       \<and> (\<forall>a<bool_next h. bool_cells h' a = bool_cells h a)"
  using assms
proof (induction ds arbitrary: f h)
  case Nil
  then show ?case by simp
next
  case (Cons d ds)
  obtain f1 h1 where step: "call_decorator d f h = (f1, h1)"
    by (cases "call_decorator d f h")
  with Cons.prems have rest: "call_decorators ds f1 h1 = (f', h')"
    by simp
  from call_decorator_frame [OF step] Cons.IH [OF rest] show ?case
    by auto
qed

text \<open>What each decorator returns: the receiver's fields, with the one decoration set
  (through a cell of the new store) or the alias replaced.\<close>

lemma decorator_results:
  "descending_of (snd (Asc f h)) (fst (Asc f h)) = Some False"
  "descending_of (snd (Desc f h)) (fst (Desc f h)) = Some True"
  "nullsfirst_of (snd (NullsFirst f h)) (fst (NullsFirst f h)) = Some True"
  "nullsfirst_of (snd (NullsLast f h)) (fst (NullsLast f h)) = Some False"
  "undecorated (fst (Asc f h)) = undecorated f"
  "undecorated (fst (Desc f h)) = undecorated f"
  "undecorated (fst (NullsFirst f h)) = undecorated f"
  "undecorated (fst (NullsLast f h)) = undecorated f"
  "As f a = f\<lparr>f_alias := a\<rparr>"
  by (simp_all add: Asc_def Desc_def NullsFirst_def NullsLast_def As_def new_bool_def
      descending_of_def nullsfirst_of_def undecorated_def)

text \<open>
  C5. Every decorator call returns its result and a store in which every cell
  allocated before holds what it held before. So for every field \<open>g\<close> of the program
  (the receiver, and any field that shares cells with it) and every chain of decorator
  calls, rendering \<open>g\<close> after the calls gives what rendering it before gave.
\<close>

theorem decorators_leave_receiver_unchanged:
  assumes "allocated h g"
  shows "allocated (snd (call_decorators ds f h)) g
       \<and> AppendSQLExclude (snd (call_decorators ds f h)) g buf args excl
           = AppendSQLExclude h g buf args excl
       \<and> string_cells (snd (call_decorators ds f h)) = string_cells h
       \<and> (\<forall>a<bool_next h. bool_cells (snd (call_decorators ds f h)) a = bool_cells h a)"
proof -
  obtain f' h' where run: "call_decorators ds f h = (f', h')"
    by (cases "call_decorators ds f h")
  note frame = call_decorators_frame [OF run]
  have alloc: "allocated h' g"
    using assms frame by (auto simp: allocated_def split: option.splits)
  have "AppendSQLExclude h' g buf args excl = AppendSQLExclude h g buf args excl"
  proof (rule render_cong)
    fix a assume "f_value g = Some a"
    show "string_cells h' a = string_cells h a"
      using frame by simp
  next
    fix a assume "f_descending g = Some a"
    with assms have "a < bool_next h"
      by (simp add: allocated_def)
    with frame show "bool_cells h' a = bool_cells h a"
      by simp
  next
    fix a assume "f_nullsfirst g = Some a"
    with assms have "a < bool_next h"
      by (simp add: allocated_def)
    with frame show "bool_cells h' a = bool_cells h a"
      by simp
  qed
  with alloc frame run show ?thesis
    by simp
qed

text \<open>
  The column \<open>u.name\<close>, made descending, is the receiver of the chain
  \<^verbatim>\<open>.Asc().NullsLast().As("n")\<close>: it renders as \<open>u.name DESC\<close> before and after, the
  result of the chain as \<open>u.name ASC NULLS LAST\<close>.
\<close>

theorem decorators_leave_receiver_unchanged_witness:
  "allocated (snd (Desc (NewStringField ''name'' (Some (Table ''u'' ''users''))) empty_heap))
     (fst (Desc (NewStringField ''name'' (Some (Table ''u'' ''users''))) empty_heap))
   \<and> AppendSQLExclude
        (snd (call_decorators [CallAsc, CallNullsLast, CallAs ''n'']
           (fst (Desc (NewStringField ''name'' (Some (Table ''u'' ''users''))) empty_heap))
           (snd (Desc (NewStringField ''name'' (Some (Table ''u'' ''users''))) empty_heap))))
        (fst (Desc (NewStringField ''name'' (Some (Table ''u'' ''users''))) empty_heap))
        [] ([] :: (unit, unit, unit) iface list) NilSlice
       = Inr (''u.name DESC'', [])
   \<and> AppendSQLExclude
        (snd (call_decorators [CallAsc, CallNullsLast, CallAs ''n'']
           (fst (Desc (NewStringField ''name'' (Some (Table ''u'' ''users''))) empty_heap))
           (snd (Desc (NewStringField ''name'' (Some (Table ''u'' ''users''))) empty_heap))))
        (fst (call_decorators [CallAsc, CallNullsLast, CallAs ''n'']
           (fst (Desc (NewStringField ''name'' (Some (Table ''u'' ''users''))) empty_heap))
           (snd (Desc (NewStringField ''name'' (Some (Table ''u'' ''users''))) empty_heap))))
        [] ([] :: (unit, unit, unit) iface list) NilSlice
       = Inr (''u.name ASC NULLS LAST'', [])"
proof -
  have a: "allocated (snd (Desc (NewStringField ''name'' (Some (Table ''u'' ''users''))) empty_heap))
     (fst (Desc (NewStringField ''name'' (Some (Table ''u'' ''users''))) empty_heap))"
    by (simp add: allocated_def Desc_def new_bool_def NewStringField_def empty_heap_def)
  have before: "AppendSQLExclude
        (snd (Desc (NewStringField ''name'' (Some (Table ''u'' ''users''))) empty_heap))
        (fst (Desc (NewStringField ''name'' (Some (Table ''u'' ''users''))) empty_heap))
        [] ([] :: (unit, unit, unit) iface list) NilSlice
       = Inr (''u.name DESC'', [])"
    by (simp add: AppendSQLExclude_def and_then_def NewStringField_def
        new_bool_def empty_heap_def Desc_def ContainsAny_def)
  have result: "AppendSQLExclude
        (snd (call_decorators [CallAsc, CallNullsLast, CallAs ''n'']
           (fst (Desc (NewStringField ''name'' (Some (Table ''u'' ''users''))) empty_heap))
           (snd (Desc (NewStringField ''name'' (Some (Table ''u'' ''users''))) empty_heap))))
        (fst (call_decorators [CallAsc, CallNullsLast, CallAs ''n'']
           (fst (Desc (NewStringField ''name'' (Some (Table ''u'' ''users''))) empty_heap))
           (snd (Desc (NewStringField ''name'' (Some (Table ''u'' ''users''))) empty_heap))))
        [] ([] :: (unit, unit, unit) iface list) NilSlice
       = Inr (''u.name ASC NULLS LAST'', [])"
    by (simp add: AppendSQLExclude_def and_then_def NewStringField_def
        new_bool_def empty_heap_def Desc_def Asc_def NullsLast_def As_def ContainsAny_def)
  from decorators_leave_receiver_unchanged [OF a,
      of "[CallAsc, CallNullsLast, CallAs ''n'']"
         "fst (Desc (NewStringField ''name'' (Some (Table ''u'' ''users''))) empty_heap)"
         "[]" "[] :: (unit, unit, unit) iface list" NilSlice]
    a before result
  show ?thesis by simp
qed

section \<open>Rendering and panics\<close>

text \<open>
  C8 as written does not hold for every \<^verbatim>\<open>StringField\<close>: a
  field that is not a literal and whose table is the nil interface value (the zero
  \<^verbatim>\<open>StringField\<close>, or \<^verbatim>\<open>NewStringField(name, nil)\<close>) panics at \<^verbatim>\<open>f.table.GetAlias()\<close>.
\<close>

theorem nil_table_counterexample:
  "AppendSQLExclude empty_heap (NewStringField ''name'' None)
      [] ([] :: (unit, unit, unit) iface list) NilSlice
     = Inl NilDereference"
  by (simp add: AppendSQLExclude_def NewStringField_def and_then_def)

lemma render_panics_iff:
  "AppendSQLExclude h f buf args excl = Inl NilDereference
     \<longleftrightarrow> f_value f = None \<and> f_table f = None"
proof (cases "f_value f")
  case (Some p)
  then show ?thesis
    by (simp add: render_literal [OF Some])
next
  case None
  show ?thesis
  proof (cases "f_table f")
    case no_table: None
    with None show ?thesis
      by (simp add: render_nil_table [OF None no_table])
  next
    case (Some t)
    with None show ?thesis
      by (simp add: render_column [OF None Some])
  qed
qed

text \<open>
  C8, as amended. Called with a buffer and an argument list (the pointers \<^verbatim>\<open>buf\<close> and
  \<^verbatim>\<open>args\<close> non-nil), rendering cannot fail for a field that is a literal or a column
  reference with a non-nil table: with any name, decorations and list of excluded
  qualifiers the call returns, and what it returns is fixed to the character. A literal
  appends \<open>?\<close> and its suffixes to the buffer and its value to the arguments. A column
  reference leaves the arguments as they were and appends to the buffer the qualifier
  and a dot (unless the qualifier is excluded or empty), the column name and the
  suffixes, where qualifier and name are copied as they are, however malformed, and only
  wrapped in double quotes when they contain a space or a tab.
\<close>

theorem render_returns:
  assumes "f_value f \<noteq> None \<or> f_table f \<noteq> None"
  shows "(\<exists>out args'. AppendSQLExclude h f buf args excl = Inr (buf @ out, args'))
       \<and> (\<forall>p. f_value f = Some p \<longrightarrow>
            AppendSQLExclude h f buf args excl
              = Inr (buf @ ''?'' @ decorations h f, args @ [IString (string_cells h p)]))
       \<and> (\<forall>t. f_value f = None \<and> f_table f = Some t \<longrightarrow>
            AppendSQLExclude h f buf args excl
              = Inr (buf
                     @ (if effective_qualifier t \<in> set (elems excl)
                           \<or> effective_qualifier t = []
                        then []
                        else quote_identifier (effective_qualifier t) @ ''.'')
                     @ quote_identifier (f_name f)
                     @ decorations h f, args))"
proof (cases "f_value f")
  case (Some p)
  show ?thesis
    by (simp add: Some render_literal [OF Some])
next
  case None
  with assms obtain t where t: "f_table f = Some t"
    by auto
  show ?thesis
    by (simp add: None t render_column [OF None t])
qed

text \<open>A literal, and a column whose qualifier and name hold quotes, a semicolon and a
  space: both return; the names are copied as they are, the name in quotes for its
  space.\<close>

theorem render_returns_witness:
  \<open>f_value (fst (String ''abcd'' empty_heap)) = Some 0
   \<and> f_table (NewStringField ''a b";--'' (Some (Table [] ''x".y''))) = Some (Table [] ''x".y'')
   \<and> AppendSQLExclude (snd (String ''abcd'' empty_heap)) (fst (String ''abcd'' empty_heap))
        ''SELECT '' ([] :: (unit, unit, unit) iface list) NilSlice
       = Inr (''SELECT ?'', [IString ''abcd''])
   \<and> AppendSQLExclude empty_heap (NewStringField ''a b";--'' (Some (Table [] ''x".y'')))
        ''SELECT '' ([IString ''kept''] :: (unit, unit, unit) iface list) NilSlice
       = Inr (''SELECT x".y."a b";--"'', [IString ''kept''])\<close>
proof -
  have lit: "f_value (fst (String ''abcd'' empty_heap)) \<noteq> None
      \<or> f_table (fst (String ''abcd'' empty_heap)) \<noteq> None"
    by (simp add: String_def new_string_def)
  have col: \<open>f_value (NewStringField ''a b";--'' (Some (Table [] ''x".y''))) \<noteq> None
      \<or> f_table (NewStringField ''a b";--'' (Some (Table [] ''x".y''))) \<noteq> None\<close>
    by (simp add: NewStringField_def)
  from render_returns [OF lit, of "snd (String ''abcd'' empty_heap)" "''SELECT ''"
      "[] :: (unit, unit, unit) iface list" NilSlice]
    render_returns [OF col, of empty_heap "''SELECT ''"
      "[IString ''kept''] :: (unit, unit, unit) iface list" NilSlice]
  show ?thesis
    by (simp add: String_def new_string_def NewStringField_def empty_heap_def
        effective_qualifier_def quote_identifier_def contains_space_or_tab_def
        decorations_def descending_of_def nullsfirst_of_def)
qed

section \<open>The output alias\<close>

lemma As_sets_alias: "StringField_GetAlias (As f a) = a"
  by (simp add: StringField_GetAlias_def As_def)

text \<open>
  C9. The output alias is never emitted: for every field \<open>f\<close>, every alias \<open>a\<close> and
  every list of excluded qualifiers, rendering \<^verbatim>\<open>f.As(a)\<close> gives the same fragment and
  the same argument list as rendering \<open>f\<close> (and panics where rendering \<open>f\<close> does).
\<close>

theorem alias_never_emitted:
  "AppendSQLExclude h (As f a) buf args excl = AppendSQLExclude h f buf args excl"
proof -
  have same: "f_value (As f a) = f_value f" "f_table (As f a) = f_table f"
    "f_name (As f a) = f_name f" "f_descending (As f a) = f_descending f"
    "f_nullsfirst (As f a) = f_nullsfirst f"
    by (simp_all add: As_def)
  show ?thesis
    unfolding AppendSQLExclude_def same ..
qed

section \<open>Predicate builders\<close>

text \<open>
  C6. \<^verbatim>\<open>In\<close> chooses the template by the dynamic type of its operand: a \<^verbatim>\<open>RowValue\<close>
  gives \<open>? IN ?\<close> with operands \<open>f\<close> and the row value; a \<^verbatim>\<open>Query\<close> gives \<open>? IN (?)\<close> with
  operands \<open>f\<close> and the query's \<^verbatim>\<open>NestThis()\<close>; any other value gives \<open>? IN (?)\<close> with
  operands \<open>f\<close> and the value itself.
\<close>

theorem In_dispatch:
  "In NestThis f (IRowValue r)
     = \<lparr>Format = ''? IN ?'', Values = [IStringField f, IRowValue r]\<rparr>
   \<and> In NestThis f (IQuery q)
     = \<lparr>Format = ''? IN (?)'', Values = [IStringField f, NestThis q]\<rparr>
   \<and> ((\<forall>r'. v \<noteq> IRowValue r') \<and> (\<forall>q'. v \<noteq> IQuery q') \<longrightarrow>
        In NestThis f v = \<lparr>Format = ''? IN (?)'', Values = [IStringField f, v]\<rparr>)"
  by (cases v) (simp_all add: In_def)

text \<open>A row value, a query whose nested form is the query tagged, and a plain list of
  strings.\<close>

theorem In_dispatch_witness:
  "In (\<lambda>q. IQuery (Suc q)) (NewStringField ''name'' None) (IRowValue [''a'', ''b''])
     = \<lparr>Format = ''? IN ?'',
        Values = [IStringField (NewStringField ''name'' None),
                  IRowValue [''a'', ''b'']
                    :: (string list, nat, string list) iface]\<rparr>
   \<and> In (\<lambda>q. IQuery (Suc q)) (NewStringField ''name'' None) (IQuery 0)
     = \<lparr>Format = ''? IN (?)'',
        Values = [IStringField (NewStringField ''name'' None),
                  IQuery (Suc 0) :: (string list, nat, string list) iface]\<rparr>
   \<and> In (\<lambda>q. IQuery (Suc q)) (NewStringField ''name'' None) (IOther [''a'', ''b''])
     = \<lparr>Format = ''? IN (?)'',
        Values = [IStringField (NewStringField ''name'' None),
                  IOther [''a'', ''b''] :: (string list, nat, string list) iface]\<rparr>"
  using In_dispatch [of "\<lambda>q. IQuery (Suc q)" "NewStringField ''name'' None"
      "[''a'', ''b'']" 0 "IOther [''a'', ''b''] :: (string list, nat, string list) iface"]
  by simp

text \<open>
  C7. Each binary comparison and pattern builder makes a predicate whose template has
  exactly two placeholder markers and whose operand list has exactly two elements;
  \<^verbatim>\<open>IsNull\<close> and \<^verbatim>\<open>IsNotNull\<close> make a predicate with one marker and one operand.
\<close>

theorem predicate_arity:
  "(\<forall>p \<in> {Eq f g, Ne f g, Gt f g, Ge f g, Lt f g, Le f g,
           EqString f s, NeString f s, GtString f s, GeString f s, LtString f s,
           LeString f s, LikeString f s, NotLikeString f s, ILikeString f s,
           NotILikeString f s}.
      placeholders (Format p) = 2 \<and> length (Values p) = 2)
   \<and> (\<forall>p \<in> {IsNull f, IsNotNull f}.
      placeholders (Format p) = 1 \<and> length (Values p) = 1)"
  by (simp add: placeholders_def Eq_def Ne_def Gt_def Ge_def Lt_def Le_def
      EqString_def NeString_def GtString_def GeString_def LtString_def LeString_def
      LikeString_def NotLikeString_def ILikeString_def NotILikeString_def
      IsNull_def IsNotNull_def)

theorem predicate_arity_witness:
  "placeholders (Format (NotILikeString (NewStringField ''name'' None) ''x%''
                   :: (unit, unit, unit) CustomPredicate)) = 2
   \<and> Values (NotILikeString (NewStringField ''name'' None) ''x%''
                   :: (unit, unit, unit) CustomPredicate)
       = [IStringField (NewStringField ''name'' None), IString ''x%'']
   \<and> placeholders (Format (IsNotNull (NewStringField ''name'' None)
                   :: (unit, unit, unit) CustomPredicate)) = 1"
  using predicate_arity [of "NewStringField ''name'' None" "NewStringField ''name'' None"
      "''x%''", where ?'a = unit and ?'b = unit and ?'c = unit]
  by (simp add: NotILikeString_def IsNotNull_def placeholders_def)

section \<open>Assignments\<close>

text \<open>
  C10. For every field \<open>f\<close> and every string \<open>s\<close>, \<^verbatim>\<open>f.Set(s)\<close> and \<^verbatim>\<open>f.SetString(s)\<close>
  return the same \<^verbatim>\<open>FieldAssignment\<close>: the same \<^verbatim>\<open>Field\<close> and the same \<^verbatim>\<open>Value\<close>.
\<close>

theorem Set_string_is_SetString:
  "Set f (IString s) = SetString f s
   \<and> Field (Set f (IString s)) = f \<and> Value (Set f (IString s)) = IString s"
  by (simp add: Set_def SetString_def)

end
